theory Spec2Isabelle
  imports Complex_Main "HOL-Library.Word"
begin

unbundle bit_operations_syntax

section \<open>Data model\<close>

text \<open>
  The embedding follows \<^verbatim>\<open>internal/ble/sensor_controller.go\<close> (package \<^verbatim>\<open>ble\<close>) and
  the \<^verbatim>\<open>main\<close> package. Go values are modelled as follows: \<^verbatim>\<open>byte\<close>, \<^verbatim>\<open>uint16\<close> and
  \<^verbatim>\<open>uint32\<close> are words of that width; an \<^verbatim>\<open>error\<close> is its message; a run-time panic is
  a result of its own. Calls to the logging package are left out: they return nothing
  and no branch depends on them.
\<close>

type_synonym byte = "8 word"
type_synonym uint16 = "16 word"
type_synonym uint32 = "32 word"

datatype error = Error string

text \<open>What a Go call yields: its return value, or a run-time panic.\<close>

datatype 'a go = Returns 'a | Panics string

text \<open>
  Modelled from the spec: the configuration package \<^verbatim>\<open>internal/configuration\<close> is not
  among the source files. The records hold the fields the code reads. The spec lists
  the wheel circumference as a positive number of millimetres and the code converts it
  with \<^verbatim>\<open>float64(...)\<close>; it is taken to be an integer here.
\<close>

record SpeedConfig =
  SmoothingWindow :: int
  SpeedUnits :: string
  WheelCircumferenceMM :: int

record BLEConfig =
  SensorUUID :: string
  ScanTimeoutSecs :: int

text \<open>
  \<^verbatim>\<open>type BLEController struct\<close>. The adapter handle is a resource of the Bluetooth
  library; what the adapter answers is passed to the functions that call it.
\<close>

record BLEController =
  bleConfig :: BLEConfig
  speedConfig :: SpeedConfig

text \<open>
  The package-level variables \<^verbatim>\<open>lastWheelRevs\<close> and \<^verbatim>\<open>lastWheelTime\<close> (lines 25-29).
  They belong to the package, not to a \<^verbatim>\<open>BLEController\<close>, so they are threaded through
  every function that reads or writes them. Go initialises both to zero.
\<close>

record globals =
  lastWheelRevs :: uint32
  lastWheelTime :: uint16

definition initial_globals :: globals where
  "initial_globals = \<lparr>lastWheelRevs = 0, lastWheelTime = 0\<rparr>"

subsection \<open>Floating point\<close>

text \<open>
  The speed is a \<^verbatim>\<open>float64\<close>. The operations the decoder applies to such values are a
  parameter of the model: conversion of an integer, a decimal literal, multiplication
  and division. Everything proved for all such operations holds for IEEE arithmetic in
  particular. \<open>exact_ops\<close> interprets them in the reals, without rounding.
\<close>

record 'f float64_ops =
  f64_of_int :: "int \<Rightarrow> 'f"
  f64_lit :: "real \<Rightarrow> 'f"
  f64_mul :: "'f \<Rightarrow> 'f \<Rightarrow> 'f"
  f64_div :: "'f \<Rightarrow> 'f \<Rightarrow> 'f"

definition exact_ops :: "real float64_ops" where
  "exact_ops = \<lparr>f64_of_int = real_of_int, f64_lit = (\<lambda>x. x),
     f64_mul = (\<lambda>x y. x * y), f64_div = (\<lambda>x y. x / y)\<rparr>"

text \<open>
  The usual model of rounding: an operation whose exact result lies in the range
  returns it with a relative error of at most \<open>eps\<close>, where \<open>val\<close> reads a
  floating-point value as a real. IEEE double precision rounds so with
  \<open>eps = 2\<^sup>-\<^sup>5\<^sup>3\<close>, reading an infinity or a NaN as 0: in this range nothing overflows
  or underflows, and the integers in it are converted exactly.
\<close>

definition in_range :: "real \<Rightarrow> bool" where
  "in_range x = (1 / 10 ^ 6 \<le> \<bar>x\<bar> \<and> \<bar>x\<bar> \<le> 10 ^ 6)"

definition rounds_within :: "real \<Rightarrow> ('f \<Rightarrow> real) \<Rightarrow> 'f float64_ops \<Rightarrow> bool" where
  "rounds_within eps val ops =
     ((\<forall>i. in_range (real_of_int i) \<longrightarrow>
         \<bar>val (f64_of_int ops i) - real_of_int i\<bar> \<le> eps * \<bar>real_of_int i\<bar>) \<and>
      (\<forall>x. in_range x \<longrightarrow> \<bar>val (f64_lit ops x) - x\<bar> \<le> eps * \<bar>x\<bar>) \<and>
      (\<forall>a b. in_range (val a * val b) \<longrightarrow>
         \<bar>val (f64_mul ops a b) - val a * val b\<bar> \<le> eps * \<bar>val a * val b\<bar>) \<and>
      (\<forall>a b. val b \<noteq> 0 \<and> in_range (val a / val b) \<longrightarrow>
         \<bar>val (f64_div ops a b) - val a / val b\<bar> \<le> eps * \<bar>val a / val b\<bar>))"

section \<open>The CSC decoder\<close>

text \<open>
  \<^verbatim>\<open>binary.LittleEndian.Uint16\<close> and \<^verbatim>\<open>Uint32\<close> of \<^verbatim>\<open>encoding/binary\<close>: they read the
  first two (four) bytes of the slice and panic on a shorter one.
\<close>

fun LittleEndian_Uint16 :: "byte list \<Rightarrow> uint16 option" where
  "LittleEndian_Uint16 (b0 # b1 # _) = Some (ucast b0 OR push_bit 8 (ucast b1))"
| "LittleEndian_Uint16 _ = None"

fun LittleEndian_Uint32 :: "byte list \<Rightarrow> uint32 option" where
  "LittleEndian_Uint32 (b0 # b1 # b2 # b3 # _) =
     Some (ucast b0 OR push_bit 8 (ucast b1) OR push_bit 16 (ucast b2) OR push_bit 24 (ucast b3))"
| "LittleEndian_Uint32 _ = None"

text \<open>
  \<^verbatim>\<open>processBLESpeed\<close> (lines 155-197). The slice expressions \<^verbatim>\<open>data[1:]\<close> and
  \<^verbatim>\<open>data[5:]\<close> are \<open>drop 1 data\<close> and \<open>drop 5 data\<close>; \<^verbatim>\<open>data[0]\<close> is read after the length
  test. The result is the returned speed and the package variables after the call.
\<close>

definition processBLESpeed ::
  "'f float64_ops \<Rightarrow> BLEController \<Rightarrow> byte list \<Rightarrow> globals \<Rightarrow> ('f \<times> globals) go" where
  "processBLESpeed ops m data g =
     (if length data < 1 then Returns (f64_lit ops 0, g)
      else
        let flags = data ! 0;
            hasWheelRev = (flags AND 1 \<noteq> 0)
        in
          if \<not> hasWheelRev \<or> length data < 7 then Returns (f64_lit ops 0, g)
          else
            case LittleEndian_Uint32 (drop 1 data) of
              None \<Rightarrow> Panics ''index out of range''
            | Some wheelRevs \<Rightarrow>
               (case LittleEndian_Uint16 (drop 5 data) of
                  None \<Rightarrow> Panics ''index out of range''
                | Some wheelEventTime \<Rightarrow>
                    if lastWheelTime g = 0
                    then Returns (f64_lit ops 0,
                           g\<lparr>lastWheelRevs := wheelRevs, lastWheelTime := wheelEventTime\<rparr>)
                    else
                      let timeDiff = wheelEventTime - lastWheelTime g
                      in
                        if timeDiff = 0 then Returns (f64_lit ops 0, g)
                        else
                          let revDiff = sint (wheelRevs - lastWheelRevs g);
                              speedConversion =
                                (if SpeedUnits (speedConfig m) = ''mph''
                                 then f64_lit ops 2.23694 else f64_lit ops 3.6);
                              speed =
                                f64_div ops
                                  (f64_mul ops
                                     (f64_mul ops (f64_of_int ops revDiff)
                                        (f64_of_int ops (WheelCircumferenceMM (speedConfig m))))
                                     speedConversion)
                                  (f64_of_int ops (uint timeDiff))
                          in Returns (speed,
                               g\<lparr>lastWheelRevs := wheelRevs, lastWheelTime := wheelEventTime\<rparr>)))"

text \<open>
  A payload that carries wheel data: at least seven bytes, bit 0 of the flags set.
  \<open>csc_payload flags revs t rest\<close> is such a payload written out, with the revolution
  count and the event time in little-endian order.
\<close>

definition csc_payload :: "byte \<Rightarrow> uint32 \<Rightarrow> uint16 \<Rightarrow> byte list \<Rightarrow> byte list" where
  "csc_payload flags revs t rest =
     flags # ucast revs # ucast (drop_bit 8 revs) # ucast (drop_bit 16 revs)
       # ucast (drop_bit 24 revs) # ucast t # ucast (drop_bit 8 t) # rest"

text \<open>
  The speed formula as the spec writes it,
  \<^verbatim>\<open>speed = revDiff * wheelCircumferenceMM * conversionFactor / timeDiff\<close>, read from left
  to right in the floating-point operations.
\<close>

definition spec_speed :: "'f float64_ops \<Rightarrow> int \<Rightarrow> int \<Rightarrow> real \<Rightarrow> int \<Rightarrow> 'f" where
  "spec_speed ops revDiff wheelCircumferenceMM conversionFactor timeDiff =
     f64_div ops
       (f64_mul ops
          (f64_mul ops (f64_of_int ops revDiff) (f64_of_int ops wheelCircumferenceMM))
          (f64_lit ops conversionFactor))
       (f64_of_int ops timeDiff)"

section \<open>The controller and the peripheral resolver\<close>

text \<open>
  What the Bluetooth library answers to the calls the controller makes. The library is
  not part of the repository, so its answers are an input: whether \<^verbatim>\<open>Enable\<close> fails,
  the advertisements the scan callback is called with, in order, and the results of
  \<^verbatim>\<open>Connect\<close>, \<^verbatim>\<open>DiscoverServices\<close>, \<^verbatim>\<open>DiscoverCharacteristics\<close> and
  \<^verbatim>\<open>EnableNotifications\<close>. A call that returns a non-nil error is \<open>Inl\<close> (or \<open>Some\<close>, for
  a call that returns only an error). Devices, services and characteristics are opaque.
\<close>

record ScanResult =
  Address :: string

record ('dev, 'svc, 'chr) adapter =
  Enable :: "error option"
  advertisements :: "ScanResult list"
  Connect :: "string \<Rightarrow> error + 'dev"
  DiscoverServices :: "'dev \<Rightarrow> uint16 list \<Rightarrow> error + 'svc list"
  DiscoverCharacteristics :: "'svc \<Rightarrow> uint16 list \<Rightarrow> error + 'chr list"
  EnableNotifications :: "'chr \<Rightarrow> error option"

text \<open>
  Why a context is done: \<^verbatim>\<open>context.Canceled\<close> when it (or a parent) was cancelled,
  \<^verbatim>\<open>context.DeadlineExceeded\<close> when its timeout ran out. \<open>ctx_Err\<close> is \<^verbatim>\<open>ctx.Err()\<close>.
\<close>

datatype ctx_err = Canceled | DeadlineExceeded


text \<open>\<^verbatim>\<open>NewBLEController\<close> (lines 32-47). It does not touch the package variables.\<close>

definition NewBLEController ::
  "BLEConfig \<Rightarrow> SpeedConfig \<Rightarrow> ('dev, 'svc, 'chr) adapter \<Rightarrow> error + BLEController" where
  "NewBLEController bleCfg speedCfg bleAdapter =
     (case Enable bleAdapter of
        Some err \<Rightarrow> Inl err
      | None \<Rightarrow> Inr \<lparr>bleConfig = bleCfg, speedConfig = speedCfg\<rparr>)"

text \<open>
  \<^verbatim>\<open>scanForBLEPeripheral\<close> (lines 110-152). \<^verbatim>\<open>scanCtx\<close> is the caller's context with a
  timeout of \<^verbatim>\<open>ScanTimeoutSecs\<close> seconds. The scan callback sends the first advertisement
  whose address is \<^verbatim>\<open>SensorUUID\<close> on the channel \<^verbatim>\<open>found\<close>, and the \<^verbatim>\<open>select\<close> returns it.
  The advertisements are those delivered before \<^verbatim>\<open>scanCtx\<close> is done; with no match among
  them the \<^verbatim>\<open>select\<close> takes the case \<^verbatim>\<open>scanCtx.Done()\<close>. \<open>ended\<close> says what ended
  \<^verbatim>\<open>scanCtx\<close>: the caller's cancellation or the timeout. The code does not look at it.
\<close>

definition scanForBLEPeripheral ::
  "BLEController \<Rightarrow> ('dev, 'svc, 'chr) adapter \<Rightarrow> ctx_err \<Rightarrow> error + ScanResult" where
  "scanForBLEPeripheral m bleAdapter ended =
     (case find (\<lambda>result. Address result = SensorUUID (bleConfig m)) (advertisements bleAdapter) of
        Some result \<Rightarrow> Inr result
      | None \<Rightarrow> Inl (Error ''scanning time limit reached''))"

text \<open>
  \<^verbatim>\<open>GetBLECharacteristic\<close> (lines 50-89). \<^verbatim>\<open>svc[0]\<close> and \<^verbatim>\<open>char[0]\<close> index the slices
  the library returned; Go panics when the slice is empty.
\<close>

definition GetBLECharacteristic ::
  "BLEController \<Rightarrow> ('dev, 'svc, 'chr) adapter \<Rightarrow> ctx_err \<Rightarrow> (error + 'chr) go" where
  "GetBLECharacteristic m bleAdapter ended =
     (case scanForBLEPeripheral m bleAdapter ended of
        Inl err \<Rightarrow> Returns (Inl err)
      | Inr result \<Rightarrow>
         (case Connect bleAdapter (Address result) of
            Inl err \<Rightarrow> Returns (Inl err)
          | Inr device \<Rightarrow>
             (case DiscoverServices bleAdapter device [0x1816] of
                Inl err \<Rightarrow> Returns (Inl err)
              | Inr svc \<Rightarrow>
                 (case svc of
                    [] \<Rightarrow> Panics ''index out of range [0] with length 0''
                  | svc0 # _ \<Rightarrow>
                     (case DiscoverCharacteristics bleAdapter svc0 [0x2A5B] of
                        Inl err \<Rightarrow> Returns (Inl err)
                      | Inr char \<Rightarrow>
                         (case char of
                            [] \<Rightarrow> Panics ''index out of range [0] with length 0''
                          | char0 # _ \<Rightarrow> Returns (Inr char0)))))))"



section \<open>The notification monitor\<close>

text \<open>
  What happens while \<^verbatim>\<open>GetBLEUpdates\<close> waits at \<^verbatim>\<open><-ctx.Done()\<close>: the library calls the
  notification callback with a payload, the adapter loses the connection to the
  peripheral, or the context is cancelled.
\<close>

datatype monitor_event = Notification "byte list" | ConnectionDropped | CtxDone

text \<open>
  How far a blocking call has come when the events run out: it is still blocked, it
  has returned, or it has panicked.
\<close>

datatype 'a progress = Blocked | Returned 'a | Panicked string

text \<open>
  The wait of \<^verbatim>\<open>GetBLEUpdates\<close> (line 104) with the callback of lines 97-100. The speed
  controller is not among the source files: \<open>UpdateSpeed\<close> is a parameter, and \<open>sc\<close> is
  the speed controller's state. The function has no statement that observes the
  connection, so \<open>ConnectionDropped\<close> changes nothing.
\<close>

fun wait_ctx_Done ::
  "'f float64_ops \<Rightarrow> ('f \<Rightarrow> 'sc \<Rightarrow> 'sc) \<Rightarrow> BLEController \<Rightarrow> monitor_event list \<Rightarrow>
     globals \<times> 'sc \<Rightarrow> error option progress \<times> globals \<times> 'sc" where
  "wait_ctx_Done ops UpdateSpeed m [] st = (Blocked, st)"
| "wait_ctx_Done ops UpdateSpeed m (CtxDone # _) st = (Returned None, st)"
| "wait_ctx_Done ops UpdateSpeed m (ConnectionDropped # events) st =
     wait_ctx_Done ops UpdateSpeed m events st"
| "wait_ctx_Done ops UpdateSpeed m (Notification buf # events) (g, sc) =
     (case processBLESpeed ops m buf g of
        Panics msg \<Rightarrow> (Panicked msg, (g, sc))
      | Returns (speed, g') \<Rightarrow> wait_ctx_Done ops UpdateSpeed m events (g', UpdateSpeed speed sc))"

text \<open>\<^verbatim>\<open>GetBLEUpdates\<close> (lines 92-107). A nil error is \<open>None\<close>.\<close>

definition GetBLEUpdates ::
  "'f float64_ops \<Rightarrow> ('f \<Rightarrow> 'sc \<Rightarrow> 'sc) \<Rightarrow> BLEController \<Rightarrow> ('dev, 'svc, 'chr) adapter \<Rightarrow> 'chr \<Rightarrow>
     monitor_event list \<Rightarrow> globals \<times> 'sc \<Rightarrow> error option progress \<times> globals \<times> 'sc" where
  "GetBLEUpdates ops UpdateSpeed m bleAdapter char events st =
     (case EnableNotifications bleAdapter char of
        Some err \<Rightarrow> (Returned (Some err), st)
      | None \<Rightarrow> wait_ctx_Done ops UpdateSpeed m events st)"

section \<open>The orchestrator\<close>
















subsection \<open>Example inputs\<close>

definition kmh_controller :: BLEController where
  "kmh_controller =
     \<lparr>bleConfig = \<lparr>SensorUUID = ''F1:42:D8:DE:35:16'', ScanTimeoutSecs = 30\<rparr>,
      speedConfig = \<lparr>SmoothingWindow = 5, SpeedUnits = ''km/h'', WheelCircumferenceMM = 2105\<rparr>\<rparr>"

definition mph_controller :: BLEController where
  "mph_controller =
     \<lparr>bleConfig = \<lparr>SensorUUID = ''F1:42:D8:DE:35:16'', ScanTimeoutSecs = 30\<rparr>,
      speedConfig = \<lparr>SmoothingWindow = 5, SpeedUnits = ''mph'', WheelCircumferenceMM = 2105\<rparr>\<rparr>"

text \<open>
  Answers of the Bluetooth library: \<open>csc_adapter\<close> sees the configured sensor after
  another device and finds one service and one characteristic; \<open>silent_adapter\<close> never
  sees the sensor; the other two answer a discovery with an empty slice and no error.
\<close>

definition sensor :: ScanResult where
  "sensor = \<lparr>Address = ''F1:42:D8:DE:35:16''\<rparr>"

definition csc_adapter :: "(nat, nat, nat) adapter" where
  "csc_adapter =
     \<lparr>Enable = None, advertisements = [\<lparr>Address = ''C0:FF:EE:00:00:01''\<rparr>, sensor],
      Connect = (\<lambda>address. Inr 0),
      DiscoverServices = (\<lambda>device uuids. Inr [0]),
      DiscoverCharacteristics = (\<lambda>service uuids. Inr [0]),
      EnableNotifications = (\<lambda>char. None)\<rparr>"


definition no_service_adapter :: "(nat, nat, nat) adapter" where
  "no_service_adapter = csc_adapter\<lparr>DiscoverServices := (\<lambda>device uuids. Inr [])\<rparr>"

definition no_characteristic_adapter :: "(nat, nat, nat) adapter" where
  "no_characteristic_adapter =
     csc_adapter\<lparr>DiscoverCharacteristics := (\<lambda>service uuids. Inr [])\<rparr>"

section \<open>Properties of the decoder\<close>

subsection \<open>Payload layout\<close>

lemma uint32_of_bytes:
  "ucast (ucast (w :: uint32) :: byte) OR push_bit 8 (ucast (ucast (drop_bit 8 w) :: byte))
     OR push_bit 16 (ucast (ucast (drop_bit 16 w) :: byte))
     OR push_bit 24 (ucast (ucast (drop_bit 24 w) :: byte)) = w"
  (is "?l = w")
proof (rule bit_word_eqI)
  fix n :: nat
  assume "n < LENGTH(32)"
  then show "bit ?l n = bit w n"
    by (cases "n < 8"; cases "n < 16"; cases "n < 24") (auto simp add: bit_simps)
qed

lemma uint16_of_bytes:
  "ucast (ucast (w :: uint16) :: byte) OR push_bit 8 (ucast (ucast (drop_bit 8 w) :: byte)) = w"
  by (rule bit_word_eqI) (auto simp add: bit_simps)

lemma Uint32_payload:
  "LittleEndian_Uint32 (drop 1 (csc_payload flags revs t rest)) = Some revs"
  "LittleEndian_Uint32 (drop (Suc 0) (csc_payload flags revs t rest)) = Some revs"
  by (simp_all add: csc_payload_def uint32_of_bytes)

lemma Uint16_payload:
  "LittleEndian_Uint16 (drop 5 (csc_payload flags revs t rest)) = Some t"
  by (simp add: csc_payload_def uint16_of_bytes)

lemma length_payload: "length (csc_payload flags revs t rest) = 7 + length rest"
  by (simp add: csc_payload_def)

lemma flags_payload: "csc_payload flags revs t rest ! 0 = flags"
  by (simp add: csc_payload_def)

lemmas payload_simps = Uint32_payload Uint16_payload length_payload flags_payload

text \<open>Every slice of seven bytes or more is such a payload.\<close>

lemma seven_bytes:
  "7 \<le> length data \<Longrightarrow>
     \<exists>f r0 r1 r2 r3 t0 t1 rest. data = f # r0 # r1 # r2 # r3 # t0 # t1 # rest"
  by (clarsimp simp add: numeral_eq_Suc Suc_le_length_iff)

lemma payload_cases:
  assumes "7 \<le> length data"
  shows "\<exists>flags revs t rest. data = csc_payload flags revs t rest"
proof -
  from assms obtain f r0 r1 r2 r3 t0 t1 :: byte and rest
    where d: "data = f # r0 # r1 # r2 # r3 # t0 # t1 # rest"
    using seven_bytes by blast
  define revs :: uint32
    where "revs = ucast r0 OR push_bit 8 (ucast r1) OR push_bit 16 (ucast r2) OR push_bit 24 (ucast r3)"
  define t :: uint16 where "t = ucast t0 OR push_bit 8 (ucast t1)"
  have "ucast revs = r0" "ucast (drop_bit 8 revs) = r1"
    "ucast (drop_bit 16 revs) = r2" "ucast (drop_bit 24 revs) = r3"
    unfolding revs_def
    by (rule bit_word_eqI; auto simp add: bit_simps dest: bit_imp_le_length)+
  moreover have "ucast t = t0" "ucast (drop_bit 8 t) = t1"
    unfolding t_def
    by (rule bit_word_eqI; auto simp add: bit_simps dest: bit_imp_le_length)+
  ultimately have "data = csc_payload f revs t rest"
    by (simp add: d csc_payload_def)
  then show ?thesis by blast
qed

subsection \<open>The result on a payload with wheel data\<close>

lemma processBLESpeed_payload:
  assumes "flags AND 1 \<noteq> 0"
  shows "processBLESpeed ops m (csc_payload flags revs t rest) g =
     (if lastWheelTime g = 0
      then Returns (f64_lit ops 0, g\<lparr>lastWheelRevs := revs, lastWheelTime := t\<rparr>)
      else if t - lastWheelTime g = 0 then Returns (f64_lit ops 0, g)
      else Returns
        (f64_div ops
           (f64_mul ops
              (f64_mul ops (f64_of_int ops (sint (revs - lastWheelRevs g)))
                 (f64_of_int ops (WheelCircumferenceMM (speedConfig m))))
              (if SpeedUnits (speedConfig m) = ''mph''
               then f64_lit ops 2.23694 else f64_lit ops 3.6))
           (f64_of_int ops (uint (t - lastWheelTime g))),
         g\<lparr>lastWheelRevs := revs, lastWheelTime := t\<rparr>))"
  using assms unfolding processBLESpeed_def
  by (simp add: payload_simps Let_def)

lemma processBLESpeed_no_wheel_data:
  "length data < 7 \<or> data ! 0 AND 1 = 0 \<Longrightarrow>
     processBLESpeed ops m data g = Returns (f64_lit ops 0, g)"
  unfolding processBLESpeed_def by (auto simp add: Let_def)

text \<open>The slice reads of the decoder are in range: it never panics.\<close>

lemma processBLESpeed_returns:
  "\<exists>speed g'. processBLESpeed ops m data g = Returns (speed, g')"
proof (cases "length data < 7 \<or> data ! 0 AND 1 = 0")
  case True
  then show ?thesis by (simp add: processBLESpeed_no_wheel_data)
next
  case False
  then obtain flags revs t rest where d: "data = csc_payload flags revs t rest"
    using payload_cases [of data] by auto
  with False have "flags AND 1 \<noteq> 0" by (simp add: flags_payload)
  then show ?thesis unfolding d by (simp add: processBLESpeed_payload)
qed

subsection \<open>The first sample\<close>

text \<open>
  Claim C6. For every payload with wheel data that is decoded while no sample is
  established (\<open>lastWheelTime\<close> is zero, as at the start of the process), the decoder
  stores the extracted wheel revolutions and event time and returns the speed 0.
\<close>

theorem first_sample_sets_baseline:
  assumes "flags AND 1 \<noteq> 0" and "lastWheelTime g = 0"
  shows "processBLESpeed ops m (csc_payload flags revs t rest) g =
           Returns (f64_lit ops 0, \<lparr>lastWheelRevs = revs, lastWheelTime = t\<rparr>)"
  using assms by (simp add: processBLESpeed_payload)

theorem first_sample_sets_baseline_witness:
  "processBLESpeed exact_ops kmh_controller [0x01, 0xE8, 0x03, 0x00, 0x00, 0x00, 0x08]
       initial_globals =
     Returns (0, \<lparr>lastWheelRevs = 1000, lastWheelTime = 2048\<rparr>)"
proof -
  have p: "[0x01, 0xE8, 0x03, 0x00, 0x00, 0x00, 0x08] = csc_payload 1 1000 2048 []"
    by (simp add: csc_payload_def)
  show ?thesis
    using first_sample_sets_baseline [where flags = 1 and g = initial_globals
        and ops = exact_ops and m = kmh_controller and revs = 1000 and t = 2048 and rest = "[]"]
    by (simp add: p initial_globals_def exact_ops_def)
qed

subsection \<open>A time delta of zero\<close>

text \<open>
  Claim C3 says that a sample whose event time equals the stored one returns the speed
  0 without dividing, and that the stored sample is replaced by the new one. The code
  returns at line 180, before the assignments of lines 193-194: with 10 revolutions at
  time 100 stored, a sample of 12 revolutions at time 100 returns 0 and leaves 10
  revolutions stored.
\<close>

theorem zero_time_delta_refresh_counterexample:
  "processBLESpeed exact_ops kmh_controller [0x01, 0x0C, 0x00, 0x00, 0x00, 0x64, 0x00]
       \<lparr>lastWheelRevs = 10, lastWheelTime = 100\<rparr> =
     Returns (0, \<lparr>lastWheelRevs = 10, lastWheelTime = 100\<rparr>)
   \<and> LittleEndian_Uint32 (drop 1 [0x01, 0x0C, 0x00, 0x00, 0x00, 0x64, 0x00]) = Some 12
   \<and> LittleEndian_Uint16 (drop 5 [0x01, 0x0C, 0x00, 0x00, 0x00, 0x64, 0x00]) = Some 100
   \<and> processBLESpeed exact_ops kmh_controller [0x01, 0x0C, 0x00, 0x00, 0x00, 0x64, 0x00]
       \<lparr>lastWheelRevs = 10, lastWheelTime = 100\<rparr> \<noteq>
     Returns (0, \<lparr>lastWheelRevs = 12, lastWheelTime = 100\<rparr>)"
  by (simp add: processBLESpeed_def exact_ops_def)

text \<open>
  Claim C3, amended. For every payload with wheel data whose event time equals the
  stored one, with a sample established, the decoder returns the speed 0 and leaves
  the stored wheel revolutions and event time as they were. No division takes place:
  the result is the same whatever the division \<open>d\<close> is.
\<close>

theorem zero_time_delta_keeps_state:
  assumes "flags AND 1 \<noteq> 0" and "lastWheelTime g \<noteq> 0" and "t = lastWheelTime g"
  shows "processBLESpeed (ops\<lparr>f64_div := d\<rparr>) m (csc_payload flags revs t rest) g =
           Returns (f64_lit ops 0, g)"
  using assms by (simp add: processBLESpeed_payload)

theorem zero_time_delta_keeps_state_witness:
  "processBLESpeed (exact_ops\<lparr>f64_div := (\<lambda>x y. 1)\<rparr>) kmh_controller
       [0x01, 0x0C, 0x00, 0x00, 0x00, 0x64, 0x00] \<lparr>lastWheelRevs = 10, lastWheelTime = 100\<rparr> =
     Returns (0, \<lparr>lastWheelRevs = 10, lastWheelTime = 100\<rparr>)"
proof -
  have p: "[0x01, 0x0C, 0x00, 0x00, 0x00, 0x64, 0x00] = csc_payload 1 12 100 []"
    by (simp add: csc_payload_def)
  show ?thesis
    using zero_time_delta_keeps_state [where flags = 1
        and g = "\<lparr>lastWheelRevs = 10, lastWheelTime = 100\<rparr>" and t = 100 and ops = exact_ops
        and d = "\<lambda>x y. 1" and m = kmh_controller and revs = 12 and rest = "[]"]
    by (simp add: p exact_ops_def)
qed

subsection \<open>The time delta\<close>

text \<open>
  Claim C4. For every stored event time and every event time of a sample, the time
  delta the decoder tests and divides by is their difference modulo 65536. With 65531
  stored and 5 in the sample it is 10.
\<close>

theorem time_delta_wraps_mod_65536:
  assumes "flags AND 1 \<noteq> 0" and "lastWheelTime g \<noteq> 0"
  shows "processBLESpeed ops m (csc_payload flags revs t rest) g =
     (let timeDiff = (uint t - uint (lastWheelTime g)) mod 65536
      in if timeDiff = 0 then Returns (f64_lit ops 0, g)
         else Returns
           (spec_speed ops (sint (revs - lastWheelRevs g)) (WheelCircumferenceMM (speedConfig m))
              (if SpeedUnits (speedConfig m) = ''mph'' then 2.23694 else 3.6) timeDiff,
            \<lparr>lastWheelRevs = revs, lastWheelTime = t\<rparr>))"
proof -
  have d: "uint (t - lastWheelTime g) = (uint t - uint (lastWheelTime g)) mod 65536"
    by (simp add: uint_word_ariths)
  have z: "(t = lastWheelTime g) = ((uint t - uint (lastWheelTime g)) mod 65536 = 0)"
    unfolding d [symmetric] by (simp add: uint_0_iff)
  show ?thesis
  proof (cases "t = lastWheelTime g")
    case True
    with assms show ?thesis by (simp add: processBLESpeed_payload)
  next
    case False
    with z have "(uint t - uint (lastWheelTime g)) mod 65536 \<noteq> 0" by simp
    with False assms show ?thesis
      by (simp add: processBLESpeed_payload spec_speed_def Let_def d)
  qed
qed

theorem time_delta_wraps_mod_65536_witness:
  "processBLESpeed exact_ops kmh_controller [0x01, 0x0B, 0x00, 0x00, 0x00, 0x05, 0x00]
       \<lparr>lastWheelRevs = 10, lastWheelTime = 65531\<rparr> =
     Returns (spec_speed exact_ops 1 2105 3.6 10, \<lparr>lastWheelRevs = 11, lastWheelTime = 5\<rparr>)"
proof -
  have p: "[0x01, 0x0B, 0x00, 0x00, 0x00, 0x05, 0x00] = csc_payload 1 11 5 []"
    by (simp add: csc_payload_def)
  show ?thesis
    using time_delta_wraps_mod_65536 [where flags = 1
        and g = "\<lparr>lastWheelRevs = 10, lastWheelTime = 65531\<rparr>"
        and ops = exact_ops and m = kmh_controller and revs = 11 and t = 5 and rest = "[]"]
    by (simp add: p kmh_controller_def)
qed

subsection \<open>The speed\<close>

text \<open>
  Claim C5. For every payload with wheel data, with a sample established and an event
  time other than the stored one, the decoder returns
  \<^verbatim>\<open>revDiff * wheelCircumferenceMM * conversionFactor / timeDiff\<close>. The conversion factor
  is 3.6 for the units km/h and 2.23694 for mph. \<open>revDiff\<close> is the difference of the
  revolution counts read as a signed 32-bit number, negative or not, and enters the
  formula as it is. One revolution of a 2105 mm wheel in 1024 ticks gives about 7.40
  km/h and about 4.60 mph (in exact arithmetic).
\<close>

theorem speed_formula:
  assumes "flags AND 1 \<noteq> 0" and "lastWheelTime g \<noteq> 0" and "t \<noteq> lastWheelTime g"
    and "SpeedUnits (speedConfig m) = ''km/h'' \<or> SpeedUnits (speedConfig m) = ''mph''"
  shows "(let revDiff = sint (revs - lastWheelRevs g);
              timeDiff = uint (t - lastWheelTime g);
              conversionFactor = (if SpeedUnits (speedConfig m) = ''km/h'' then 3.6 else 2.23694)
          in processBLESpeed ops m (csc_payload flags revs t rest) g =
               Returns (spec_speed ops revDiff (WheelCircumferenceMM (speedConfig m))
                          conversionFactor timeDiff,
                        \<lparr>lastWheelRevs = revs, lastWheelTime = t\<rparr>)
             \<and> revDiff mod 2 ^ 32 = (uint revs - uint (lastWheelRevs g)) mod 2 ^ 32
             \<and> - (2 ^ 31) \<le> revDiff \<and> revDiff < 2 ^ 31
             \<and> 0 < timeDiff \<and> timeDiff < 65536)"
proof -
  have r: "sint (revs - lastWheelRevs g) mod 2 ^ 32 =
      (uint revs - uint (lastWheelRevs g)) mod 2 ^ 32"
  proof -
    have "sint (revs - lastWheelRevs g) mod 2 ^ 32 = uint (revs - lastWheelRevs g)"
      by (simp add: uint_sint take_bit_eq_mod)
    then show ?thesis by (simp add: uint_word_ariths)
  qed
  have b: "- (2 ^ 31) \<le> sint (revs - lastWheelRevs g)" "sint (revs - lastWheelRevs g) < 2 ^ 31"
    using sint_ge [of "revs - lastWheelRevs g"] sint_lt [of "revs - lastWheelRevs g"]
    by simp_all
  have nz: "t - lastWheelTime g \<noteq> 0" using assms(3) by simp
  have "uint (t - lastWheelTime g) \<noteq> 0"
    using nz by (simp only: uint_0_iff not_False_eq_True)
  then have p: "0 < uint (t - lastWheelTime g)"
    using uint_ge_0 [of "t - lastWheelTime g"] by linarith
  have u: "uint (t - lastWheelTime g) < 65536"
    using uint_lt2p [of "t - lastWheelTime g"] by simp
  show ?thesis
    unfolding Let_def
    using assms(1,2,4) nz r b p u
    by (auto simp add: processBLESpeed_payload spec_speed_def)
qed

theorem speed_formula_witness:
  "processBLESpeed exact_ops kmh_controller [0x01, 0x0B, 0x00, 0x00, 0x00, 0x00, 0x08]
       \<lparr>lastWheelRevs = 10, lastWheelTime = 1024\<rparr> =
     Returns (1 * 2105 * 3.6 / 1024, \<lparr>lastWheelRevs = 11, lastWheelTime = 2048\<rparr>)
   \<and> \<bar>1 * 2105 * 3.6 / 1024 - 7.40\<bar> < (0.005 :: real)
   \<and> processBLESpeed exact_ops mph_controller [0x01, 0x0B, 0x00, 0x00, 0x00, 0x00, 0x08]
       \<lparr>lastWheelRevs = 10, lastWheelTime = 1024\<rparr> =
     Returns (1 * 2105 * 2.23694 / 1024, \<lparr>lastWheelRevs = 11, lastWheelTime = 2048\<rparr>)
   \<and> \<bar>1 * 2105 * 2.23694 / 1024 - 4.60\<bar> < (0.005 :: real)
   \<and> processBLESpeed exact_ops kmh_controller [0x01, 0x09, 0x00, 0x00, 0x00, 0x00, 0x08]
       \<lparr>lastWheelRevs = 10, lastWheelTime = 1024\<rparr> =
     Returns (- 1 * 2105 * 3.6 / 1024, \<lparr>lastWheelRevs = 9, lastWheelTime = 2048\<rparr>)"
proof -
  have p: "[0x01, 0x0B, 0x00, 0x00, 0x00, 0x00, 0x08] = csc_payload 1 11 2048 []"
    "[0x01, 0x09, 0x00, 0x00, 0x00, 0x00, 0x08] = csc_payload 1 9 2048 []"
    by (simp_all add: csc_payload_def)
  let ?g = "\<lparr>lastWheelRevs = 10, lastWheelTime = 1024\<rparr>"
  have "processBLESpeed exact_ops kmh_controller (csc_payload 1 11 2048 []) ?g =
     Returns (1 * 2105 * 3.6 / 1024, \<lparr>lastWheelRevs = 11, lastWheelTime = 2048\<rparr>)"
    using speed_formula [where flags = 1 and g = ?g and ops = exact_ops and m = kmh_controller
        and revs = 11 and t = 2048 and rest = "[]"]
    by (simp add: kmh_controller_def spec_speed_def exact_ops_def)
  moreover have "processBLESpeed exact_ops mph_controller (csc_payload 1 11 2048 []) ?g =
     Returns (1 * 2105 * 2.23694 / 1024, \<lparr>lastWheelRevs = 11, lastWheelTime = 2048\<rparr>)"
    using speed_formula [where flags = 1 and g = ?g and ops = exact_ops and m = mph_controller
        and revs = 11 and t = 2048 and rest = "[]"]
    by (simp add: mph_controller_def spec_speed_def exact_ops_def)
  moreover have "processBLESpeed exact_ops kmh_controller (csc_payload 1 9 2048 []) ?g =
     Returns (- 1 * 2105 * 3.6 / 1024, \<lparr>lastWheelRevs = 9, lastWheelTime = 2048\<rparr>)"
    using speed_formula [where flags = 1 and g = ?g and ops = exact_ops and m = kmh_controller
        and revs = 9 and t = 2048 and rest = "[]"]
    by (simp add: kmh_controller_def spec_speed_def exact_ops_def)
  ultimately show ?thesis by (simp add: p)
qed

text \<open>
  The two examples do not depend on exact arithmetic: under any rounding with a
  relative error of at most \<open>10\<^sup>-\<^sup>6\<close> for each operation, the formula stays within a
  relative error of \<open>10\<^sup>-\<^sup>5\<close> of its exact value, so it still gives 7.40 and 4.60 to
  two decimal places.
\<close>

lemma rounds_within_exact: "rounds_within 0 (\<lambda>x. x) exact_ops"
  by (simp add: rounds_within_def exact_ops_def)

lemma in_range_between:
  assumes "1 / 10 ^ 6 \<le> lo" and "lo \<le> x" and "x \<le> hi" and "hi \<le> 10 ^ 6"
  shows "in_range x"
  using assms by (simp add: in_range_def abs_le_iff)

lemma rounded_between:
  fixes v x :: real
  assumes "\<bar>v - x\<bar> \<le> eps * \<bar>x\<bar>" and "0 \<le> eps" and "eps \<le> e" and "e < 1"
    and "0 < lo" and "lo \<le> x" and "x \<le> hi"
  shows "lo * (1 - e) \<le> v \<and> v \<le> hi * (1 + e)"
proof -
  have x: "0 < x" using assms(5,6) by linarith
  then have a: "x * (1 - eps) \<le> v" "v \<le> x * (1 + eps)"
    using assms(1) by (simp_all add: algebra_simps abs_le_iff)
  have "lo * (1 - e) \<le> x * (1 - e)"
    using assms(4,6) by (simp add: mult_right_mono)
  also have "\<dots> \<le> x * (1 - eps)"
    using x assms(3) by (simp add: mult_left_mono)
  finally have l: "lo * (1 - e) \<le> v" using a(1) by linarith
  have "x * (1 + eps) \<le> x * (1 + e)"
    using x assms(3) by (simp add: mult_left_mono)
  also have "\<dots> \<le> hi * (1 + e)"
    using assms(2,3,7) by (simp add: mult_right_mono)
  finally have "v \<le> hi * (1 + e)" using a(2) by linarith
  with l show ?thesis by simp
qed

lemma spec_speed_with_rounding:
  fixes c :: real
  assumes r: "rounds_within eps val ops" and e: "0 \<le> eps" "eps \<le> 1 / 10 ^ 6"
    and c: "1 \<le> c" "c \<le> 10"
  shows "2105 * c / 1024 * (1 - 1 / 10 ^ 5) \<le> val (spec_speed ops 1 2105 c 1024)
       \<and> val (spec_speed ops 1 2105 c 1024) \<le> 2105 * c / 1024 * (1 + 1 / 10 ^ 5)"
proof -
  let ?e = "1 / 10 ^ 6 :: real"
  let ?a = "f64_of_int ops 1" and ?b = "f64_of_int ops 2105"
  let ?c = "f64_lit ops c" and ?d = "f64_of_int ops 1024"
  let ?m1 = "f64_mul ops ?a ?b"
  let ?m2 = "f64_mul ops ?m1 ?c"
  let ?q = "f64_div ops ?m2 ?d"
  from r have ri: "in_range (real_of_int i) \<Longrightarrow>
      \<bar>val (f64_of_int ops i) - real_of_int i\<bar> \<le> eps * \<bar>real_of_int i\<bar>" for i
    by (simp add: rounds_within_def)
  from r have rl: "in_range x \<Longrightarrow> \<bar>val (f64_lit ops x) - x\<bar> \<le> eps * \<bar>x\<bar>" for x
    by (simp add: rounds_within_def)
  from r have rm: "in_range (val x * val y) \<Longrightarrow>
      \<bar>val (f64_mul ops x y) - val x * val y\<bar> \<le> eps * \<bar>val x * val y\<bar>" for x y
    by (simp add: rounds_within_def)
  from r have rd: "val y \<noteq> 0 \<Longrightarrow> in_range (val x / val y) \<Longrightarrow>
      \<bar>val (f64_div ops x y) - val x / val y\<bar> \<le> eps * \<bar>val x / val y\<bar>" for x y
    by (simp add: rounds_within_def)
  have cpos: "0 < c" using c by linarith
  have rc: "in_range c" using c by (simp add: in_range_def)
  have a: "1 * (1 - ?e) \<le> val ?a \<and> val ?a \<le> 1 * (1 + ?e)"
    using ri [of 1] e
    by (intro rounded_between [where x = 1 and eps = eps]) (simp_all add: in_range_def)
  have b: "2105 * (1 - ?e) \<le> val ?b \<and> val ?b \<le> 2105 * (1 + ?e)"
    using ri [of 2105] e
    by (intro rounded_between [where x = 2105 and eps = eps]) (simp_all add: in_range_def)
  have cc: "c * (1 - ?e) \<le> val ?c \<and> val ?c \<le> c * (1 + ?e)"
    using rl [OF rc] e cpos by (intro rounded_between [where x = c and eps = eps]) simp_all
  have d: "1024 * (1 - ?e) \<le> val ?d \<and> val ?d \<le> 1024 * (1 + ?e)"
    using ri [of 1024] e
    by (intro rounded_between [where x = 1024 and eps = eps]) (simp_all add: in_range_def)
  have ab: "(1 * (1 - ?e)) * (2105 * (1 - ?e)) \<le> val ?a * val ?b
      \<and> val ?a * val ?b \<le> (1 * (1 + ?e)) * (2105 * (1 + ?e))"
    using a b by (intro conjI mult_mono) simp_all
  have rab: "in_range (val ?a * val ?b)"
    using ab by (intro in_range_between [where x = "val ?a * val ?b"
          and lo = "(1 * (1 - ?e)) * (2105 * (1 - ?e))"
          and hi = "(1 * (1 + ?e)) * (2105 * (1 + ?e))"]) simp_all
  have m1: "(1 * (1 - ?e)) * (2105 * (1 - ?e)) * (1 - ?e) \<le> val ?m1
      \<and> val ?m1 \<le> (1 * (1 + ?e)) * (2105 * (1 + ?e)) * (1 + ?e)"
    using rm [OF rab] e ab
    by (intro rounded_between [where x = "val ?a * val ?b" and eps = eps]) simp_all
  have m1c: "(1 * (1 - ?e)) * (2105 * (1 - ?e)) * (1 - ?e) * (c * (1 - ?e)) \<le> val ?m1 * val ?c
      \<and> val ?m1 * val ?c \<le> (1 * (1 + ?e)) * (2105 * (1 + ?e)) * (1 + ?e) * (c * (1 + ?e))"
    using m1 cc cpos by (intro conjI mult_mono) simp_all
  have rm1c: "in_range (val ?m1 * val ?c)"
    using m1c c by (intro in_range_between [where x = "val ?m1 * val ?c"
          and lo = "(1 * (1 - ?e)) * (2105 * (1 - ?e)) * (1 - ?e) * (c * (1 - ?e))"
          and hi = "(1 * (1 + ?e)) * (2105 * (1 + ?e)) * (1 + ?e) * (c * (1 + ?e))"]) simp_all
  have m2: "(1 * (1 - ?e)) * (2105 * (1 - ?e)) * (1 - ?e) * (c * (1 - ?e)) * (1 - ?e) \<le> val ?m2
      \<and> val ?m2 \<le> (1 * (1 + ?e)) * (2105 * (1 + ?e)) * (1 + ?e) * (c * (1 + ?e)) * (1 + ?e)"
    using rm [OF rm1c] e m1c cpos
    by (intro rounded_between [where x = "val ?m1 * val ?c" and eps = eps]) simp_all
  have dpos: "0 < val ?d" using d by simp
  have m2d: "(1 * (1 - ?e)) * (2105 * (1 - ?e)) * (1 - ?e) * (c * (1 - ?e)) * (1 - ?e)
        / (1024 * (1 + ?e)) \<le> val ?m2 / val ?d
      \<and> val ?m2 / val ?d \<le>
        (1 * (1 + ?e)) * (2105 * (1 + ?e)) * (1 + ?e) * (c * (1 + ?e)) * (1 + ?e)
        / (1024 * (1 - ?e))"
    using m2 d cpos by (intro conjI frac_le) simp_all
  have rm2d: "in_range (val ?m2 / val ?d)"
    using m2d c by (intro in_range_between [where x = "val ?m2 / val ?d"
          and lo = "(1 * (1 - ?e)) * (2105 * (1 - ?e)) * (1 - ?e) * (c * (1 - ?e)) * (1 - ?e)
            / (1024 * (1 + ?e))"
          and hi = "(1 * (1 + ?e)) * (2105 * (1 + ?e)) * (1 + ?e) * (c * (1 + ?e)) * (1 + ?e)
            / (1024 * (1 - ?e))"]) simp_all
  have q: "(1 * (1 - ?e)) * (2105 * (1 - ?e)) * (1 - ?e) * (c * (1 - ?e)) * (1 - ?e)
        / (1024 * (1 + ?e)) * (1 - ?e) \<le> val ?q
      \<and> val ?q \<le>
        (1 * (1 + ?e)) * (2105 * (1 + ?e)) * (1 + ?e) * (c * (1 + ?e)) * (1 + ?e)
        / (1024 * (1 - ?e)) * (1 + ?e)"
    using rd [of ?d ?m2, OF _ rm2d] dpos e m2d cpos
    by (intro rounded_between [where x = "val ?m2 / val ?d" and eps = eps]) simp_all
  have lo: "2105 * c / 1024 * (1 - 1 / 10 ^ 5) \<le>
      (1 * (1 - ?e)) * (2105 * (1 - ?e)) * (1 - ?e) * (c * (1 - ?e)) * (1 - ?e)
        / (1024 * (1 + ?e)) * (1 - ?e)"
    using cpos by simp
  have hi: "(1 * (1 + ?e)) * (2105 * (1 + ?e)) * (1 + ?e) * (c * (1 + ?e)) * (1 + ?e)
        / (1024 * (1 - ?e)) * (1 + ?e) \<le> 2105 * c / 1024 * (1 + 1 / 10 ^ 5)"
    using cpos by simp
  from q lo hi show ?thesis
    unfolding spec_speed_def by linarith
qed

lemma speed_examples_with_rounding:
  assumes "rounds_within eps val ops" and "0 \<le> eps" and "eps \<le> 1 / 10 ^ 6"
  shows "\<bar>val (spec_speed ops 1 2105 3.6 1024) - 7.40\<bar> < 0.005"
    and "\<bar>val (spec_speed ops 1 2105 2.23694 1024) - 4.60\<bar> < 0.005"
  using spec_speed_with_rounding [OF assms, where c = "3.6"]
    spec_speed_with_rounding [OF assms, where c = "2.23694"]
  by (simp_all add: abs_less_iff)

subsection \<open>An event time of zero\<close>

text \<open>
  Claim C10. When a sample with the event time 0 is processed in full (a sample is
  established, so the time delta is not zero and a speed is computed), the decoder
  stores the event time 0. The next payload with wheel data is then taken for a first
  sample: it is stored and the speed 0 is returned, whatever its revolutions and event
  time are.
\<close>

theorem event_time_zero_resets_baseline:
  assumes "flags AND 1 \<noteq> 0" and "flags' AND 1 \<noteq> 0" and "lastWheelTime g \<noteq> 0"
  shows "processBLESpeed ops m (csc_payload flags revs 0 rest) g =
           Returns (spec_speed ops (sint (revs - lastWheelRevs g))
                      (WheelCircumferenceMM (speedConfig m))
                      (if SpeedUnits (speedConfig m) = ''mph'' then 2.23694 else 3.6)
                      (65536 - uint (lastWheelTime g)),
                    \<lparr>lastWheelRevs = revs, lastWheelTime = 0\<rparr>)
       \<and> processBLESpeed ops m (csc_payload flags' revs' t' rest')
             \<lparr>lastWheelRevs = revs, lastWheelTime = 0\<rparr> =
           Returns (f64_lit ops 0, \<lparr>lastWheelRevs = revs', lastWheelTime = t'\<rparr>)"
proof -
  have "uint (lastWheelTime g) \<noteq> 0"
    using assms(3) by (simp only: uint_0_iff not_False_eq_True)
  then have pos: "0 < uint (lastWheelTime g)"
    using uint_ge_0 [of "lastWheelTime g"] by linarith
  have "uint (lastWheelTime g) < 65536"
    using uint_lt2p [of "lastWheelTime g"] by simp
  with pos have d: "uint (0 - lastWheelTime g) = 65536 - uint (lastWheelTime g)"
    by (simp add: uint_word_ariths zmod_zminus1_eq_if)
  have nz: "0 - lastWheelTime g \<noteq> 0" using assms(3) by simp
  have first: "processBLESpeed ops m (csc_payload flags revs 0 rest) g =
           Returns (spec_speed ops (sint (revs - lastWheelRevs g))
                      (WheelCircumferenceMM (speedConfig m))
                      (if SpeedUnits (speedConfig m) = ''mph'' then 2.23694 else 3.6)
                      (65536 - uint (lastWheelTime g)),
                    \<lparr>lastWheelRevs = revs, lastWheelTime = 0\<rparr>)"
    using assms(1,3) nz d
    by (simp add: processBLESpeed_payload [where t = 0] spec_speed_def del: diff_0)
  have second: "processBLESpeed ops m (csc_payload flags' revs' t' rest')
             \<lparr>lastWheelRevs = revs, lastWheelTime = 0\<rparr> =
           Returns (f64_lit ops 0, \<lparr>lastWheelRevs = revs', lastWheelTime = t'\<rparr>)"
    using assms(2) by (simp add: processBLESpeed_payload)
  from first second show ?thesis by simp
qed

theorem event_time_zero_resets_baseline_witness:
  "processBLESpeed exact_ops kmh_controller [0x01, 0x0B, 0x00, 0x00, 0x00, 0x00, 0x00]
       \<lparr>lastWheelRevs = 10, lastWheelTime = 64512\<rparr> =
     Returns (spec_speed exact_ops 1 2105 3.6 1024, \<lparr>lastWheelRevs = 11, lastWheelTime = 0\<rparr>)
   \<and> processBLESpeed exact_ops kmh_controller [0x01, 0x0C, 0x00, 0x00, 0x00, 0x00, 0x04]
       \<lparr>lastWheelRevs = 11, lastWheelTime = 0\<rparr> =
     Returns (0, \<lparr>lastWheelRevs = 12, lastWheelTime = 1024\<rparr>)"
proof -
  have p: "[0x01, 0x0B, 0x00, 0x00, 0x00, 0x00, 0x00] = csc_payload 1 11 0 []"
    "[0x01, 0x0C, 0x00, 0x00, 0x00, 0x00, 0x04] = csc_payload 1 12 1024 []"
    by (simp_all add: csc_payload_def)
  show ?thesis
    using event_time_zero_resets_baseline [where flags = 1 and flags' = 1
        and g = "\<lparr>lastWheelRevs = 10, lastWheelTime = 64512\<rparr>" and ops = exact_ops
        and m = kmh_controller and revs = 11 and rest = "[]"
        and revs' = 12 and t' = 1024 and rest' = "[]"]
    by (simp add: p kmh_controller_def exact_ops_def)
qed

subsection \<open>Where the decoder state lives\<close>

text \<open>
  Claim C1 says that the decoder state belongs to one controller or monitoring session,
  so that a new session starts without a stored sample. The state is the pair of
  package variables: a first controller decodes a sample, a second controller is
  created, and the first sample decoded through the second controller returns a speed
  other than 0, computed against the sample the first one stored.
\<close>

theorem stale_baseline_counterexample:
  "processBLESpeed exact_ops kmh_controller [0x01, 0x0A, 0x00, 0x00, 0x00, 0x00, 0x04]
       initial_globals =
     Returns (0, \<lparr>lastWheelRevs = 10, lastWheelTime = 1024\<rparr>)
   \<and> NewBLEController (bleConfig mph_controller) (speedConfig mph_controller) csc_adapter =
     Inr mph_controller
   \<and> processBLESpeed exact_ops mph_controller [0x01, 0x0B, 0x00, 0x00, 0x00, 0x00, 0x08]
       \<lparr>lastWheelRevs = 10, lastWheelTime = 1024\<rparr> =
     Returns (1 * 2105 * 2.23694 / 1024, \<lparr>lastWheelRevs = 11, lastWheelTime = 2048\<rparr>)
   \<and> (1 * 2105 * 2.23694 / 1024 :: real) \<noteq> 0"
  by (simp add: processBLESpeed_def exact_ops_def NewBLEController_def csc_adapter_def
      kmh_controller_def mph_controller_def initial_globals_def)

text \<open>
  Claim C1, amended. The decoder is a function of the payload, the two package
  variables and the speed configuration of the controller: it reads nothing else of
  the controller, and the package variables are all it writes. They are shared by
  every controller of the process and \<^verbatim>\<open>NewBLEController\<close> does not reset them: after a
  first sample decoded from the start of the process through any controller \<open>m\<close>, a
  sample decoded through a controller \<open>m'\<close> created later yields the speed computed
  against that first sample.
\<close>

theorem decoder_state_is_process_wide:
  assumes "NewBLEController bleCfg speedCfg bleAdapter = Inr m'"
    and "flags AND 1 \<noteq> 0" and "flags' AND 1 \<noteq> 0" and "t \<noteq> 0" and "t' \<noteq> t"
  shows "processBLESpeed ops (m\<lparr>bleConfig := b\<rparr>) data g = processBLESpeed ops m data g
       \<and> processBLESpeed ops m (csc_payload flags revs t rest) initial_globals =
           Returns (f64_lit ops 0, \<lparr>lastWheelRevs = revs, lastWheelTime = t\<rparr>)
       \<and> processBLESpeed ops m' (csc_payload flags' revs' t' rest')
             \<lparr>lastWheelRevs = revs, lastWheelTime = t\<rparr> =
           Returns (spec_speed ops (sint (revs' - revs)) (WheelCircumferenceMM speedCfg)
                      (if SpeedUnits speedCfg = ''mph'' then 2.23694 else 3.6) (uint (t' - t)),
                    \<lparr>lastWheelRevs = revs', lastWheelTime = t'\<rparr>)"
proof -
  have frame: "processBLESpeed ops (m\<lparr>bleConfig := b\<rparr>) data g = processBLESpeed ops m data g"
    by (simp add: processBLESpeed_def Let_def split: option.split)
  have first: "processBLESpeed ops m (csc_payload flags revs t rest) initial_globals =
           Returns (f64_lit ops 0, \<lparr>lastWheelRevs = revs, lastWheelTime = t\<rparr>)"
    using assms(2) by (simp add: processBLESpeed_payload initial_globals_def)
  from assms(1) have m': "speedConfig m' = speedCfg"
    by (auto simp add: NewBLEController_def split: option.splits)
  have second: "processBLESpeed ops m' (csc_payload flags' revs' t' rest')
             \<lparr>lastWheelRevs = revs, lastWheelTime = t\<rparr> =
           Returns (spec_speed ops (sint (revs' - revs)) (WheelCircumferenceMM speedCfg)
                      (if SpeedUnits speedCfg = ''mph'' then 2.23694 else 3.6) (uint (t' - t)),
                    \<lparr>lastWheelRevs = revs', lastWheelTime = t'\<rparr>)"
    using assms(3,4,5) by (simp add: processBLESpeed_payload m' spec_speed_def)
  from frame first second show ?thesis by simp
qed

theorem decoder_state_is_process_wide_witness:
  "processBLESpeed exact_ops
       (kmh_controller\<lparr>bleConfig := \<lparr>SensorUUID = ''other'', ScanTimeoutSecs = 5\<rparr>\<rparr>)
       [0x01, 0x0B, 0x00, 0x00, 0x00, 0x00, 0x08] \<lparr>lastWheelRevs = 10, lastWheelTime = 1024\<rparr> =
     processBLESpeed exact_ops kmh_controller
       [0x01, 0x0B, 0x00, 0x00, 0x00, 0x00, 0x08] \<lparr>lastWheelRevs = 10, lastWheelTime = 1024\<rparr>
   \<and> processBLESpeed exact_ops kmh_controller [0x01, 0x0A, 0x00, 0x00, 0x00, 0x00, 0x04]
       initial_globals =
     Returns (0, \<lparr>lastWheelRevs = 10, lastWheelTime = 1024\<rparr>)
   \<and> processBLESpeed exact_ops mph_controller [0x01, 0x0B, 0x00, 0x00, 0x00, 0x00, 0x08]
       \<lparr>lastWheelRevs = 10, lastWheelTime = 1024\<rparr> =
     Returns (spec_speed exact_ops 1 2105 2.23694 1024,
              \<lparr>lastWheelRevs = 11, lastWheelTime = 2048\<rparr>)"
proof -
  have n: "NewBLEController (bleConfig mph_controller) (speedConfig mph_controller) csc_adapter =
      Inr mph_controller"
    by (simp add: NewBLEController_def csc_adapter_def)
  have p: "[0x01, 0x0A, 0x00, 0x00, 0x00, 0x00, 0x04] = csc_payload 1 10 1024 []"
    "[0x01, 0x0B, 0x00, 0x00, 0x00, 0x00, 0x08] = csc_payload 1 11 2048 []"
    by (simp_all add: csc_payload_def)
  show ?thesis
    using decoder_state_is_process_wide [OF n, where flags = 1 and flags' = 1 and t = 1024
        and t' = 2048 and ops = exact_ops and m = kmh_controller and revs = 10 and revs' = 11
        and rest = "[]" and rest' = "[]" and data = "csc_payload 1 11 2048 []"
        and g = "\<lparr>lastWheelRevs = 10, lastWheelTime = 1024\<rparr>"
        and b = "\<lparr>SensorUUID = ''other'', ScanTimeoutSecs = 5\<rparr>"]
    by (simp add: p mph_controller_def exact_ops_def)
qed

section \<open>Properties of the peripheral resolver\<close>




text \<open>
  Claim C8 says that an empty result of the service discovery or of the characteristic
  discovery is answered with an error. \<^verbatim>\<open>GetBLECharacteristic\<close> tests the error of the
  discovery only and then reads element 0 of the slice: on an empty slice with a nil
  error it panics. With one service and one characteristic it returns the
  characteristic.
\<close>

theorem empty_discovery_panics:
  "GetBLECharacteristic kmh_controller no_service_adapter DeadlineExceeded =
     Panics ''index out of range [0] with length 0''
   \<and> GetBLECharacteristic kmh_controller no_characteristic_adapter DeadlineExceeded =
     Panics ''index out of range [0] with length 0''
   \<and> GetBLECharacteristic kmh_controller csc_adapter DeadlineExceeded = Returns (Inr 0)"
  by (simp add: scanForBLEPeripheral_def GetBLECharacteristic_def csc_adapter_def
      no_service_adapter_def no_characteristic_adapter_def sensor_def kmh_controller_def)

section \<open>Properties of the notification monitor\<close>

lemma wait_ctx_Done_progress:
  "fst (wait_ctx_Done ops UpdateSpeed m events st) =
     (if CtxDone \<in> set events then Returned None else Blocked)"
proof (induction ops UpdateSpeed m events st rule: wait_ctx_Done.induct)
  case (4 ops UpdateSpeed m buf events g sc)
  obtain speed g' where r: "processBLESpeed ops m buf g = Returns (speed, g')"
    using processBLESpeed_returns [of ops m buf g] by auto
  with 4 show ?case by simp
qed simp_all

lemma wait_ctx_Done_ignores_drops:
  "wait_ctx_Done ops UpdateSpeed m (filter (\<lambda>e. e \<noteq> ConnectionDropped) events) st =
     wait_ctx_Done ops UpdateSpeed m events st"
proof (induction ops UpdateSpeed m events st rule: wait_ctx_Done.induct)
  case (4 ops UpdateSpeed m buf events g sc)
  obtain speed g' where r: "processBLESpeed ops m buf g = Returns (speed, g')"
    using processBLESpeed_returns [of ops m buf g] by auto
  with 4 show ?case by simp
qed simp_all

text \<open>
  Claim C9 says that a connection that drops while the monitor runs surfaces as a
  non-nil error of the monitor. \<^verbatim>\<open>GetBLEUpdates\<close> waits for the context alone: after a
  drop it is still blocked, and when the context is cancelled afterwards it returns
  nil.
\<close>

theorem connection_drop_counterexample:
  "fst (GetBLEUpdates exact_ops (\<lambda>speed sc. sc @ [speed]) kmh_controller csc_adapter 0
          [ConnectionDropped] (initial_globals, [])) = Blocked
   \<and> fst (GetBLEUpdates exact_ops (\<lambda>speed sc. sc @ [speed]) kmh_controller csc_adapter 0
          [ConnectionDropped, CtxDone] (initial_globals, [])) = Returned None"
  by (simp add: GetBLEUpdates_def csc_adapter_def)

text \<open>
  Claim C9, amended. When the subscription fails, the monitor returns its error at
  once. After a successful subscription it blocks until its context is cancelled and
  then returns nil; it returns nothing else. A connection that drops is not observed:
  with or without the drops among the events, the monitor does the same.
\<close>

theorem monitor_blocks_until_cancelled:
  "fst (GetBLEUpdates ops UpdateSpeed m bleAdapter char events st) =
     (case EnableNotifications bleAdapter char of
        Some err \<Rightarrow> Returned (Some err)
      | None \<Rightarrow> if CtxDone \<in> set events then Returned None else Blocked)
   \<and> GetBLEUpdates ops UpdateSpeed m bleAdapter char
       (filter (\<lambda>e. e \<noteq> ConnectionDropped) events) st =
     GetBLEUpdates ops UpdateSpeed m bleAdapter char events st"
  by (simp add: GetBLEUpdates_def wait_ctx_Done_progress wait_ctx_Done_ignores_drops
      split: option.splits)

theorem monitor_blocks_until_cancelled_witness:
  "GetBLEUpdates exact_ops (\<lambda>speed sc. sc @ [speed]) kmh_controller csc_adapter 0
       [Notification [0x01, 0x0A, 0x00, 0x00, 0x00, 0x00, 0x04], ConnectionDropped,
        Notification [0x01, 0x0B, 0x00, 0x00, 0x00, 0x00, 0x08], CtxDone]
       (initial_globals, []) =
     (Returned None, \<lparr>lastWheelRevs = 11, lastWheelTime = 2048\<rparr>, [0, 1 * 2105 * 3.6 / 1024])
   \<and> fst (GetBLEUpdates exact_ops (\<lambda>speed sc. sc @ [speed]) kmh_controller csc_adapter 0
       [Notification [0x01, 0x0A, 0x00, 0x00, 0x00, 0x00, 0x04], ConnectionDropped]
       (initial_globals, [])) = Blocked"
  using monitor_blocks_until_cancelled [where ops = exact_ops
      and UpdateSpeed = "\<lambda>speed sc. sc @ [speed]"
      and m = kmh_controller and bleAdapter = csc_adapter and char = 0
      and events = "[Notification [0x01, 0x0A, 0x00, 0x00, 0x00, 0x00, 0x04], ConnectionDropped]"
      and st = "(initial_globals, [])"]
  by (simp add: GetBLEUpdates_def csc_adapter_def processBLESpeed_def exact_ops_def
      initial_globals_def kmh_controller_def)

section \<open>Properties of the orchestrator\<close>


























end
